theory Spec2Isabelle
  imports Main "HOL-Library.AList"
begin

section \<open>Errors, remote values and string helpers\<close>

text \<open>
  Go errors are values. An error handed back by the remote client layer is opaque to the
  commands (\<open>ClientError\<close>); an error built locally with \<open>fmt.Errorf\<close> carries its
  formatted message (\<open>Errorf\<close>); \<open>strconv.Atoi\<close> reports a \<open>*strconv.NumError\<close> that
  carries the offending input (\<open>NumError\<close>); \<open>WrongArgNum\<close> is the error of \<open>checkArgNum\<close>.
\<close>

datatype error = ClientError string | Errorf string | NumError string | WrongArgNum string

text \<open>The fields of \<open>photon.Cluster\<close> that the commands read.\<close>

record Cluster =
  ID :: string
  Name :: string
  State :: string
  Type :: string
  WorkerCount :: int

text \<open>
  \<open>strings.ToUpper\<close> on the bytes of a string: the ASCII letters \<open>a\<close>..\<open>z\<close> are
  mapped to \<open>A\<close>..\<open>Z\<close>, every other byte is kept. The commands compare the result
  with ASCII words only (the two terminal states and the three cluster types).
\<close>

definition upperByte :: "char \<Rightarrow> char" where
  "upperByte c =
     (let n = (of_char c :: nat) in if 97 \<le> n \<and> n \<le> 122 then char_of (n - 32) else c)"

definition ToUpper :: "string \<Rightarrow> string" where
  "ToUpper s = map upperByte s"

section \<open>waitForCluster\<close>

text \<open>
  Durations are nanoseconds, as in \<open>time.Duration\<close>.
\<close>

definition taskPollTimeout :: nat where
  "taskPollTimeout = 60 * (60 * 1000000000)"

definition taskPollDelay :: nat where
  "taskPollDelay = 2 * 1000000000"

definition taskRetryCount :: nat where
  "taskRetryCount = 3"

text \<open>
  What \<open>client.Esxclient.Clusters.Get(id)\<close> hands back on one call: the pointer (\<open>None\<close>
  is \<open>nil\<close>), the error (\<open>None\<close> is \<open>nil\<close>), and the time the call took on the clock
  that \<open>time.Since(start)\<close> reads. The remote client is the function that gives the
  response of the k-th call.
\<close>

record response =
  got :: "Cluster option"
  failure :: "error option"
  took :: nat

text \<open>The actions of the waiter that are visible outside it, in program order.\<close>

datatype action =
    WgAdd
  | GoDisplayTaskProgress
  | ClustersGet string
  | SetEndAnimation
  | WgWait
  | Sleep nat

text \<open>
  The local variables of \<open>waitForCluster\<close>: the named results \<open>cluster\<close> and \<open>err\<close>,
  the counter \<open>numErr\<close>, the number of Get calls made so far, the reading of
  \<open>time.Since(start)\<close>, and the actions performed so far.
\<close>

record wait_state =
  cluster :: "Cluster option"
  err :: "error option"
  numErr :: nat
  calls :: nat
  elapsed :: nat
  trace :: "action list"

text \<open>
  How a call ends: it returns its two named results, or it panics on \<open>cluster.State\<close>
  with \<open>cluster\<close> nil.
\<close>

datatype outcome = Returned "Cluster option" "error option" | NilPointerPanic

datatype step = Continue wait_state | Stop outcome wait_state

definition endAnimationAndWait :: "wait_state \<Rightarrow> wait_state" where
  "endAnimationAndWait st = st\<lparr>trace := trace st @ [SetEndAnimation, WgWait]\<rparr>"

definition returned :: "wait_state \<Rightarrow> step" where
  "returned st = Stop (Returned (cluster st) (err st)) st"

text \<open>One pass through the body of the \<open>for\<close> loop.\<close>

definition loopBody :: "(nat \<Rightarrow> response) \<Rightarrow> string \<Rightarrow> wait_state \<Rightarrow> step" where
  "loopBody get cid st =
     (let r = get (calls st);
          st1 = st\<lparr>cluster := got r, err := failure r, calls := Suc (calls st),
                   elapsed := elapsed st + took r,
                   trace := trace st @ [ClustersGet cid]\<rparr>;
          st2 = (if err st1 \<noteq> None then st1\<lparr>numErr := numErr st1 + 1\<rparr> else st1)
      in if err st1 \<noteq> None \<and> numErr st2 > taskRetryCount then
           returned (endAnimationAndWait st2)
         else
           (case cluster st2 of
              None \<Rightarrow> Stop NilPointerPanic st2
            | Some c \<Rightarrow>
                if ToUpper (State c) = ''ERROR'' then
                  returned ((endAnimationAndWait st2)
                    \<lparr>err := Some (Errorf (''Cluster '' @ cid @ '' entered ERROR state''))\<rparr>)
                else if ToUpper (State c) = ''READY'' then
                  returned (endAnimationAndWait st2)
                else
                  Continue (st2\<lparr>elapsed := elapsed st2 + taskPollDelay,
                                trace := trace st2 @ [Sleep taskPollDelay]\<rparr>)))"

function waitLoop :: "(nat \<Rightarrow> response) \<Rightarrow> string \<Rightarrow> wait_state \<Rightarrow> outcome \<times> wait_state" where
  "waitLoop get cid st =
     (if elapsed st < taskPollTimeout then
        (case loopBody get cid st of
           Continue st' \<Rightarrow> waitLoop get cid st'
         | Stop out st' \<Rightarrow> (out, st'))
      else
        (let st' = (endAnimationAndWait st)
               \<lparr>err := Some (Errorf ''Timed out while waiting for cluster to enter READY state'')\<rparr>
         in (Returned (cluster st') (err st'), st')))"
  by pat_completeness auto
termination
  by (relation "measure (\<lambda>(get, cid, st). taskPollTimeout - elapsed st)")
     (auto simp: loopBody_def Let_def returned_def taskPollDelay_def
           split: if_splits option.splits)

declare waitLoop.simps [simp del]

text \<open>
  The local variables when the loop is first entered. The time between taking \<open>start\<close>
  and the first test of the loop condition is taken to be zero; after that the clock
  advances by the time each call takes and by each sleep.
\<close>

definition start :: wait_state where
  "start = \<lparr>cluster = None, err = None, numErr = 0, calls = 0, elapsed = 0,
            trace = [WgAdd, GoDisplayTaskProgress]\<rparr>"

definition waitForCluster :: "(nat \<Rightarrow> response) \<Rightarrow> string \<Rightarrow> outcome \<times> action list" where
  "waitForCluster get cid = (let (out, st) = waitLoop get cid start in (out, trace st))"

subsection \<open>Describing runs of the waiter\<close>

text \<open>
  The local variables at the head of iteration \<open>n\<close> of the loop, when the loop gets
  that far: the first \<open>n\<close> passes through the body all ended in the sleep.
\<close>

fun stateAfter :: "(nat \<Rightarrow> response) \<Rightarrow> string \<Rightarrow> nat \<Rightarrow> wait_state option" where
  "stateAfter get cid 0 = Some start"
| "stateAfter get cid (Suc n) =
     (case stateAfter get cid n of
        None \<Rightarrow> None
      | Some st \<Rightarrow>
          if elapsed st < taskPollTimeout then
            (case loopBody get cid st of Continue st' \<Rightarrow> Some st' | Stop _ _ \<Rightarrow> None)
          else None)"

text \<open>
  A response is uneventful when it carries a cluster whose state is neither ERROR nor
  READY. \<open>failures\<close> counts the failed responses among the calls \<open>a..<b\<close>, \<open>span\<close> is
  the time these calls and the sleeps after them take, and \<open>polling\<close> is what the
  waiter does over them when each is followed by the sleep.
\<close>

definition uneventful :: "response \<Rightarrow> bool" where
  "uneventful r =
     (case got r of
        None \<Rightarrow> False
      | Some c \<Rightarrow> ToUpper (State c) \<noteq> ''ERROR'' \<and> ToUpper (State c) \<noteq> ''READY'')"

definition failed :: "response \<Rightarrow> nat" where
  "failed r = (if failure r = None then 0 else 1)"

definition failures :: "(nat \<Rightarrow> response) \<Rightarrow> nat \<Rightarrow> nat \<Rightarrow> nat" where
  "failures get a b = sum_list (map (\<lambda>k. failed (get k)) [a..<b])"

definition span :: "(nat \<Rightarrow> response) \<Rightarrow> nat \<Rightarrow> nat \<Rightarrow> nat" where
  "span get a b = sum_list (map (\<lambda>k. took (get k) + taskPollDelay) [a..<b])"

definition polling :: "string \<Rightarrow> nat \<Rightarrow> nat \<Rightarrow> action list" where
  "polling cid a b = concat (map (\<lambda>k. [ClustersGet cid, Sleep taskPollDelay]) [a..<b])"

subsection \<open>Example responses\<close>

definition creating :: Cluster where
  "creating = \<lparr>ID = ''c1'', Name = ''demo'', State = ''CREATING'', Type = ''KUBERNETES'',
               WorkerCount = 1\<rparr>"

definition ready :: Cluster where
  "ready = creating\<lparr>State := ''Ready''\<rparr>"

definition errored :: Cluster where
  "errored = creating\<lparr>State := ''error''\<rparr>"

text \<open>A successful call that took \<open>d\<close> nanoseconds.\<close>

definition ok :: "Cluster \<Rightarrow> nat \<Rightarrow> response" where
  "ok c d = \<lparr>got = Some c, failure = None, took = d\<rparr>"

text \<open>A failed call: the client hands back a nil cluster with the error.\<close>

definition refused :: response where
  "refused = \<lparr>got = None, failure = Some (ClientError ''connection refused''), took = 0\<rparr>"

text \<open>A failed call whose result still carries a cluster.\<close>

definition stale :: "Cluster \<Rightarrow> response" where
  "stale c = \<lparr>got = Some c, failure = Some (ClientError ''connection reset''), took = 0\<rparr>"

text \<open>The first call fails, the second finds the cluster READY.\<close>

definition refusedThenReady :: "nat \<Rightarrow> response" where
  "refusedThenReady k = (if k = 0 then refused else ok ready 0)"

text \<open>Every call fails.\<close>

definition alwaysRefused :: "nat \<Rightarrow> response" where
  "alwaysRefused k = refused"

text \<open>The first call fails, every later call finds the cluster still CREATING.\<close>

definition refusedThenCreating :: "nat \<Rightarrow> response" where
  "refusedThenCreating k = (if k = 0 then refused else ok creating 0)"

text \<open>
  Four failed calls, each followed by a successful one: the calls 0, 2, 4 and 6 fail
  (their results carry the cluster), the calls 1, 3 and 5 find it CREATING, and the call
  7 finds it READY.
\<close>

definition isolatedFailures :: "nat \<Rightarrow> response" where
  "isolatedFailures k =
     (if k < 7 then (if even k then stale creating else ok creating 0) else ok ready 0)"


text \<open>The cluster is CREATING for two calls and READY at the third.\<close>

definition readyAtThird :: "nat \<Rightarrow> response" where
  "readyAtThird k = (if k < 2 then ok creating 0 else ok ready 0)"

text \<open>The cluster is CREATING at the first call and in the ERROR state at the second.\<close>

definition errorAtSecond :: "nat \<Rightarrow> response" where
  "errorAtSecond k = (if k < 1 then ok creating 0 else ok errored 0)"

text \<open>The cluster stays CREATING, and every call takes half an hour.\<close>

definition slowCreating :: "nat \<Rightarrow> response" where
  "slowCreating k = ok creating (30 * (60 * 1000000000))"

section \<open>The cluster commands\<close>

subsection \<open>Command line, collaborators and their calls\<close>

text \<open>
  A \<open>cli.Context\<close> as the commands read it: the positional arguments, the string and
  integer flags by name (an unset flag reads as the empty string or 0), which flags are
  set, and the two answers of the \<open>utils\<close> package about the invocation.
\<close>

record Context =
  c_Args :: "string list"
  c_String :: "string \<Rightarrow> string"
  c_Int :: "string \<Rightarrow> int"
  c_IsSet :: "string \<Rightarrow> bool"
  c_GlobalIsSet :: "string \<Rightarrow> bool"
  IsNonInteractive :: bool
  NeedsFormatting :: bool

text \<open>The keys of the extended properties are constants of the SDK.\<close>

datatype ExtendedProperty =
    ExtendedPropertyDNS
  | ExtendedPropertyGateway
  | ExtendedPropertyNetMask
  | ExtendedPropertySSHKey
  | ExtendedPropertyMasterIP
  | ExtendedPropertyContainerNetwork
  | ExtendedPropertyETCDIP1
  | ExtendedPropertyETCDIP2
  | ExtendedPropertyETCDIP3
  | ExtendedPropertyZookeeperIP1
  | ExtendedPropertyZookeeperIP2
  | ExtendedPropertyZookeeperIP3

record ClusterCreateSpec =
  Spec_Name :: string
  Spec_Type :: string
  VMFlavor :: string
  DiskFlavor :: string
  NetworkID :: string
  Spec_WorkerCount :: int
  BatchSizeWorker :: int
  ExtendedProperties :: "(ExtendedProperty \<times> string) list"

text \<open>The two fields of a task that the commands read.\<close>

record Task =
  Task_ID :: string
  Entity_ID :: string

text \<open>
  What \<open>readSSHKey\<close> sees of an opened file: the text of the scanner after its first
  \<open>Scan\<close>, the scanner's error and the error of \<open>Close\<close>.
\<close>

record File =
  scanned :: string
  scanErr :: "error option"
  closeErr :: "error option"

text \<open>
  The collaborators of the commands, which are not part of the two source files: the
  client constructor, the tenant and project resolution (they yield the ID that is
  read from their result), the interactive prompt, the file system, the confirmation
  prompt, the three mutating requests, the task poller, and \<open>Clusters.Get\<close> for the
  readiness waiter.
\<close>

record Env =
  GetClient :: "bool \<Rightarrow> error option"
  verifyTenant :: "string \<Rightarrow> error + string"
  verifyProject :: "string \<Rightarrow> string \<Rightarrow> error + string"
  askForInput :: "string \<Rightarrow> string \<Rightarrow> error + string"
  osOpen :: "string \<Rightarrow> error + File"
  confirmed :: "bool \<Rightarrow> bool"
  CreateCluster :: "string \<Rightarrow> ClusterCreateSpec \<Rightarrow> error + Task"
  Resize :: "string \<Rightarrow> int \<Rightarrow> error + Task"
  Delete :: "string \<Rightarrow> error + Task"
  waitOnTaskOperation :: "string \<Rightarrow> error option"
  Get :: "string \<Rightarrow> nat \<Rightarrow> response"

text \<open>The calls a command makes to its collaborators, in program order.\<close>

datatype call =
    CallGetClient bool
  | CallVerifyTenant string
  | CallVerifyProject string string
  | CallAskForInput string string
  | CallOpen string
  | CallConfirmed bool
  | CallCreateCluster string ClusterCreateSpec
  | CallResize string int
  | CallDelete string
  | CallWaitOnTaskOperation string
  | CallWaitForCluster string "action list"

text \<open>
  A command stops early by returning an error or by a panic. A piece of a command takes
  the calls made so far and gives its value, or the way it stopped, with the calls
  extended. Text written to standard output is not modelled.
\<close>

datatype stop = ReturnErr error | Panic

type_synonym 'a cmd = "call list \<Rightarrow> (stop + 'a) \<times> call list"

definition ret :: "'a \<Rightarrow> 'a cmd" where
  "ret x tr = (Inr x, tr)"

definition returnErr :: "error \<Rightarrow> 'a cmd" where
  "returnErr e tr = (Inl (ReturnErr e), tr)"

definition andThen :: "'a cmd \<Rightarrow> ('a \<Rightarrow> 'b cmd) \<Rightarrow> 'b cmd" where
  "andThen m f tr = (case m tr of (Inl s, tr') \<Rightarrow> (Inl s, tr') | (Inr x, tr') \<Rightarrow> f x tr')"

text \<open>A call whose error, if any, is returned at once (\<open>if err != nil { return err }\<close>).\<close>

definition perform :: "call \<Rightarrow> error + 'a \<Rightarrow> 'a cmd" where
  "perform cl r tr = (case r of Inl e \<Rightarrow> (Inl (ReturnErr e), tr @ [cl]) | Inr x \<Rightarrow> (Inr x, tr @ [cl]))"

text \<open>A local check whose error, if any, is returned at once; no call is made.\<close>

definition perform_check :: "error option \<Rightarrow> unit cmd" where
  "perform_check e tr = (case e of None \<Rightarrow> (Inr (), tr) | Some x \<Rightarrow> (Inl (ReturnErr x), tr))"

definition orNil :: "error option \<Rightarrow> error + unit" where
  "orNil e = (case e of None \<Rightarrow> Inr () | Some x \<Rightarrow> Inl x)"

definition ask :: "Env \<Rightarrow> string \<Rightarrow> string \<Rightarrow> string cmd" where
  "ask env msg inputName = perform (CallAskForInput msg inputName) (askForInput env msg inputName)"

subsection \<open>Helpers\<close>

text \<open>
  Modelled from the spec: \<open>checkArgNum\<close> is defined in a file of the repository that is
  not under src/. It is the argument-count validation: it returns an error, which names
  the usage string, exactly when the number of positional arguments differs from the
  expected number.
\<close>

definition checkArgNum :: "string list \<Rightarrow> nat \<Rightarrow> string \<Rightarrow> error option" where
  "checkArgNum args num usage = (if length args = num then None else Some (WrongArgNum usage))"

text \<open>\<open>c.Args().First()\<close>: the first argument, or the empty string.\<close>

definition First :: "string list \<Rightarrow> string" where
  "First args = (case args of [] \<Rightarrow> [] | a # _ \<Rightarrow> a)"

text \<open>
  \<open>strconv.Atoi\<close> for a 64-bit \<open>int\<close>: an optional sign and then one or more decimal
  digits, with a value in the range of \<open>int\<close>; anything else is an error.
\<close>

definition digit :: "char \<Rightarrow> bool" where
  "digit ch = (48 \<le> (of_char ch :: nat) \<and> (of_char ch :: nat) \<le> 57)"

definition digitsValue :: "string \<Rightarrow> int" where
  "digitsValue ds = foldl (\<lambda>n ch. n * 10 + (int (of_char ch) - 48)) 0 ds"

definition Atoi :: "string \<Rightarrow> error + int" where
  "Atoi s =
     (let neg = (case s of [] \<Rightarrow> False | ch # _ \<Rightarrow> ch = CHR ''-'');
          ds = (case s of [] \<Rightarrow> [] | ch # r \<Rightarrow> if ch = CHR ''-'' \<or> ch = CHR ''+'' then r else s)
      in if ds = [] \<or> \<not> list_all digit ds then Inl (NumError s)
         else
           (let n = (if neg then - digitsValue ds else digitsValue ds)
            in if n < - (2 ^ 63) \<or> 2 ^ 63 - 1 < n then Inl (NumError s) else Inr n))"

text \<open>\<open>strings.TrimSpace\<close> for the ASCII white space characters.\<close>

definition space :: "char \<Rightarrow> bool" where
  "space ch = (ch \<in> set [CHR 0x09, CHR 0x0A, CHR 0x0B, CHR 0x0C, CHR 0x0D, CHR '' ''])"

definition TrimSpace :: "string \<Rightarrow> string" where
  "TrimSpace s = rev (dropWhile space (rev (dropWhile space s)))"

definition validateSSHKey :: "string \<Rightarrow> error option" where
  "validateSSHKey key =
     (if length key = 0 then Some (Errorf ''The ssh-key file provided has no content'') else None)"

text \<open>
  \<open>readSSHKey\<close> returns its two named results. Once the file is open, the deferred
  function replaces the returned error by the error of \<open>Close\<close>, if there is one.
\<close>

definition readSSHKey :: "Env \<Rightarrow> string \<Rightarrow> string \<times> error option" where
  "readSSHKey env filename =
     (case osOpen env filename of
        Inl e \<Rightarrow> ([], Some e)
      | Inr file \<Rightarrow>
          (let keystring = TrimSpace (scanned file);
               (result, err) =
                 (case scanErr file of
                    Some e \<Rightarrow> ([], Some e)
                  | None \<Rightarrow>
                      (case validateSSHKey keystring of
                         Some e \<Rightarrow> ([], Some e)
                       | None \<Rightarrow> (keystring, None)))
           in (case closeErr file of Some e \<Rightarrow> (result, Some e) | None \<Rightarrow> (result, err))))"


subsection \<open>createCluster\<close>

definition DEFAULT_WORKER_COUNT :: int where
  "DEFAULT_WORKER_COUNT = 1"

text \<open>The client, the tenant and the project; the value is \<open>project.ID\<close>.\<close>

definition resolveProject :: "Env \<Rightarrow> Context \<Rightarrow> string cmd" where
  "resolveProject env c =
     andThen (perform (CallGetClient (c_GlobalIsSet c ''non-interactive''))
                (orNil (GetClient env (c_GlobalIsSet c ''non-interactive'')))) (\<lambda>_.
     andThen (perform (CallVerifyTenant (c_String c ''tenant''))
                (verifyTenant env (c_String c ''tenant''))) (\<lambda>tenant_ID.
     perform (CallVerifyProject tenant_ID (c_String c ''project''))
       (verifyProject env tenant_ID (c_String c ''project''))))"

text \<open>The first interactive block: name, type and worker count.\<close>

definition promptCluster :: "Env \<Rightarrow> Context \<Rightarrow> (string \<times> string \<times> int) cmd" where
  "promptCluster env c =
     (if \<not> IsNonInteractive c then
        andThen (ask env ''Cluster name: '' (c_String c ''name'')) (\<lambda>name.
        andThen (ask env ''Cluster type: '' (c_String c ''type'')) (\<lambda>cluster_type.
        if c_Int c ''worker_count'' = 0 then
          andThen (ask env ''Worker count: '' []) (\<lambda>worker_count_string.
          (case Atoi worker_count_string of
             Inl _ \<Rightarrow> returnErr (Errorf ''Please supply a valid worker count'')
           | Inr worker_count \<Rightarrow> ret (name, cluster_type, worker_count)))
        else ret (name, cluster_type, c_Int c ''worker_count'')))
      else ret (c_String c ''name'', c_String c ''type'', c_Int c ''worker_count''))"

text \<open>The second interactive block: DNS, gateway, netmask and the path of the SSH key.\<close>

definition promptNetwork :: "Env \<Rightarrow> Context \<Rightarrow> (string \<times> string \<times> string \<times> string) cmd" where
  "promptNetwork env c =
     (if \<not> IsNonInteractive c then
        andThen (ask env ''Cluster DNS server: '' (c_String c ''dns'')) (\<lambda>dns.
        andThen (ask env ''Cluster network gateway: '' (c_String c ''gateway'')) (\<lambda>gateway.
        andThen (ask env ''Cluster network netmask: '' (c_String c ''netmask'')) (\<lambda>netmask.
        andThen (ask env ''Cluster ssh key file path (leave blank for none): ''
                   (c_String c ''ssh-key'')) (\<lambda>ssh_key.
        ret (dns, gateway, netmask, ssh_key)))))
      else ret (c_String c ''dns'', c_String c ''gateway'', c_String c ''netmask'',
                c_String c ''ssh-key''))"

text \<open>The properties of the network and, when a key file is named, its content.\<close>

definition networkProperties ::
  "Env \<Rightarrow> string \<Rightarrow> string \<Rightarrow> string \<Rightarrow> string \<Rightarrow> (ExtendedProperty \<times> string) list cmd" where
  "networkProperties env dns gateway netmask ssh_key =
     (let extended_properties =
            AList.update ExtendedPropertyNetMask netmask
              (AList.update ExtendedPropertyGateway gateway
                 (AList.update ExtendedPropertyDNS dns []))
      in if length ssh_key \<noteq> 0 then
           andThen (perform (CallOpen ssh_key) (Inr ())) (\<lambda>_.
           (case readSSHKey env ssh_key of
              (ssh_key_content, None) \<Rightarrow>
                ret (AList.update ExtendedPropertySSHKey ssh_key_content extended_properties)
            | (_, Some e) \<Rightarrow> returnErr e))
         else ret extended_properties)"

text \<open>The etcd prompts, shared by the KUBERNETES and SWARM cases.\<close>

definition promptEtcd :: "Env \<Rightarrow> Context \<Rightarrow> (string \<times> string \<times> string) cmd" where
  "promptEtcd env c =
     andThen (ask env ''etcd server 1 static IP address: '' (c_String c ''etcd1'')) (\<lambda>etcd1.
     andThen (ask env ''etcd server 2 static IP address (leave blank for none): ''
                (c_String c ''etcd2'')) (\<lambda>etcd2.
     if length etcd2 \<noteq> 0 then
       andThen (ask env ''etcd server 3 static IP address (leave blank for none): ''
                  (c_String c ''etcd3'')) (\<lambda>etcd3.
       ret (etcd1, etcd2, etcd3))
     else ret (etcd1, etcd2, c_String c ''etcd3'')))"

definition etcdProperties ::
  "string \<Rightarrow> string \<Rightarrow> string \<Rightarrow> (ExtendedProperty \<times> string) list
     \<Rightarrow> (ExtendedProperty \<times> string) list" where
  "etcdProperties etcd1 etcd2 etcd3 extended_properties =
     (let p1 = AList.update ExtendedPropertyETCDIP1 etcd1 extended_properties
      in if length etcd2 \<noteq> 0 then
           (let p2 = AList.update ExtendedPropertyETCDIP2 etcd2 p1
            in if length etcd3 \<noteq> 0 then AList.update ExtendedPropertyETCDIP3 etcd3 p2 else p2)
         else p1)"

text \<open>The \<open>switch\<close> on the upper-cased cluster type.\<close>

definition typeProperties ::
  "Env \<Rightarrow> Context \<Rightarrow> string \<Rightarrow> (ExtendedProperty \<times> string) list
     \<Rightarrow> (ExtendedProperty \<times> string) list cmd" where
  "typeProperties env c cluster_type extended_properties =
     (if cluster_type = ''KUBERNETES'' then
        andThen
          (if \<not> IsNonInteractive c then
             andThen (ask env ''Kubernetes master static IP address: ''
                        (c_String c ''master-ip'')) (\<lambda>master_ip.
             andThen (ask env ''Kubernetes worker network ID: ''
                        (c_String c ''container-network'')) (\<lambda>container_network.
             andThen (promptEtcd env c) (\<lambda>(etcd1, etcd2, etcd3).
             ret (master_ip, container_network, etcd1, etcd2, etcd3))))
           else ret (c_String c ''master-ip'', c_String c ''container-network'',
                     c_String c ''etcd1'', c_String c ''etcd2'', c_String c ''etcd3''))
          (\<lambda>(master_ip, container_network, etcd1, etcd2, etcd3).
             ret (etcdProperties etcd1 etcd2 etcd3
                    (AList.update ExtendedPropertyContainerNetwork container_network
                       (AList.update ExtendedPropertyMasterIP master_ip extended_properties))))
      else if cluster_type = ''MESOS'' then
        andThen
          (if \<not> IsNonInteractive c then
             andThen (ask env ''Zookeeper server 1 static IP address: ''
                        (c_String c ''zookeeper1'')) (\<lambda>zookeeper1.
             andThen (ask env ''Zookeeper server 2 static IP address (leave blank for none): ''
                        (c_String c ''zookeeper2'')) (\<lambda>zookeeper2.
             if length zookeeper2 \<noteq> 0 then
               andThen (ask env ''Zookeeper server 3 static IP address (leave blank for none): ''
                          (c_String c ''zookeeper3'')) (\<lambda>zookeeper3.
               ret (zookeeper1, zookeeper2, zookeeper3))
             else ret (zookeeper1, zookeeper2, c_String c ''zookeeper3'')))
           else ret (c_String c ''zookeeper1'', c_String c ''zookeeper2'',
                     c_String c ''zookeeper3''))
          (\<lambda>(zookeeper1, zookeeper2, zookeeper3).
             ret (let p1 = AList.update ExtendedPropertyZookeeperIP1 zookeeper1 extended_properties
                  in if length zookeeper2 \<noteq> 0 then
                       (let p2 = AList.update ExtendedPropertyZookeeperIP2 zookeeper2 p1
                        in if length zookeeper3 \<noteq> 0
                           then AList.update ExtendedPropertyZookeeperIP3 zookeeper3 p2 else p2)
                     else p1))
      else if cluster_type = ''SWARM'' then
        andThen
          (if \<not> IsNonInteractive c then promptEtcd env c
           else ret (c_String c ''etcd1'', c_String c ''etcd2'', c_String c ''etcd3''))
          (\<lambda>(etcd1, etcd2, etcd3). ret (etcdProperties etcd1 etcd2 etcd3 extended_properties))
      else returnErr (Errorf (''Unsupported cluster type: '' @ cluster_type)))"

text \<open>Everything up to the filled-in \<open>clusterSpec\<close>; the value is \<open>project.ID\<close> and the spec.\<close>

definition buildClusterSpec :: "Env \<Rightarrow> Context \<Rightarrow> (string \<times> ClusterCreateSpec) cmd" where
  "buildClusterSpec env c =
     andThen (resolveProject env c) (\<lambda>project_ID.
     andThen (promptCluster env c) (\<lambda>(name, cluster_type, worker_count).
     if length name = 0 \<or> length cluster_type = 0 then
       returnErr (Errorf ''Provide a valid cluster name and type'')
     else
       let worker_count = (if worker_count = 0 then DEFAULT_WORKER_COUNT else worker_count) in
       andThen (promptNetwork env c) (\<lambda>(dns, gateway, netmask, ssh_key).
       if length dns = 0 \<or> length gateway = 0 \<or> length netmask = 0 then
         returnErr (Errorf ''Provide a valid DNS, gateway, and netmask'')
       else
         andThen (networkProperties env dns gateway netmask ssh_key) (\<lambda>extended_properties.
         andThen (typeProperties env c (ToUpper cluster_type) extended_properties)
           (\<lambda>extended_properties.
         ret (project_ID,
              \<lparr>Spec_Name = name,
               Spec_Type = ToUpper cluster_type,
               VMFlavor = c_String c ''vm_flavor'',
               DiskFlavor = c_String c ''disk_flavor'',
               NetworkID = c_String c ''network_id'',
               Spec_WorkerCount = worker_count,
               BatchSizeWorker = c_Int c ''batchSize'',
               ExtendedProperties = extended_properties\<rparr>))))))"

text \<open>
  The call of \<open>waitForCluster\<close> from a command that was asked to wait, and the use of
  its result: a non-nil error is returned; otherwise the cluster is formatted, or its ID
  is printed, which dereferences it.
\<close>

definition awaitCluster :: "Env \<Rightarrow> Context \<Rightarrow> string \<Rightarrow> unit cmd" where
  "awaitCluster env c cid tr =
     (case waitForCluster (Get env cid) cid of
        (NilPointerPanic, acts) \<Rightarrow> (Inl Panic, tr @ [CallWaitForCluster cid acts])
      | (Returned cl (Some e), acts) \<Rightarrow> (Inl (ReturnErr e), tr @ [CallWaitForCluster cid acts])
      | (Returned (Some cl) None, acts) \<Rightarrow> (Inr (), tr @ [CallWaitForCluster cid acts])
      | (Returned None None, acts) \<Rightarrow>
          (if NeedsFormatting c then Inr () else Inl Panic, tr @ [CallWaitForCluster cid acts]))"

definition createCluster :: "Env \<Rightarrow> Context \<Rightarrow> unit cmd" where
  "createCluster env c =
     andThen (perform_check (checkArgNum (c_Args c) 0 ''cluster create [<options>]'')) (\<lambda>_.
     andThen (buildClusterSpec env c) (\<lambda>(project_ID, clusterSpec).
     andThen (perform (CallConfirmed (IsNonInteractive c)) (Inr (confirmed env (IsNonInteractive c))))
       (\<lambda>yes.
     if yes then
       andThen (perform (CallCreateCluster project_ID clusterSpec)
                  (CreateCluster env project_ID clusterSpec)) (\<lambda>createTask.
       andThen (perform (CallWaitOnTaskOperation (Task_ID createTask))
                  (orNil (waitOnTaskOperation env (Task_ID createTask)))) (\<lambda>_.
       if c_IsSet c ''wait-for-ready'' then awaitCluster env c (Entity_ID createTask)
       else ret ()))
     else ret ())))"

subsection \<open>resizeCluster\<close>

definition resizeCluster :: "Env \<Rightarrow> Context \<Rightarrow> unit cmd" where
  "resizeCluster env c =
     andThen (perform_check
                (checkArgNum (c_Args c) 2 ''cluster resize <id> <new worker count> [<options>]''))
       (\<lambda>_.
     (case c_Args c of
        cluster_id # worker_count_string # _ \<Rightarrow>
          (case Atoi worker_count_string of
             Inl _ \<Rightarrow> returnErr (Errorf ''Provide a valid cluster ID and worker count'')
           | Inr worker_count \<Rightarrow>
               if length cluster_id = 0 \<or> worker_count \<le> 0 then
                 returnErr (Errorf ''Provide a valid cluster ID and worker count'')
               else
                 andThen (perform (CallGetClient (IsNonInteractive c))
                            (orNil (GetClient env (IsNonInteractive c)))) (\<lambda>_.
                 andThen (perform (CallConfirmed (IsNonInteractive c))
                            (Inr (confirmed env (IsNonInteractive c)))) (\<lambda>yes.
                 if yes then
                   andThen (perform (CallResize cluster_id worker_count)
                              (Resize env cluster_id worker_count)) (\<lambda>resizeTask.
                   andThen (perform (CallWaitOnTaskOperation (Task_ID resizeTask))
                              (orNil (waitOnTaskOperation env (Task_ID resizeTask)))) (\<lambda>_.
                   if c_IsSet c ''wait-for-ready'' then awaitCluster env c cluster_id
                   else ret ()))
                 else ret ())))
      | _ \<Rightarrow> (\<lambda>tr. (Inl Panic, tr))))"

subsection \<open>deleteCluster\<close>

definition deleteCluster :: "Env \<Rightarrow> Context \<Rightarrow> unit cmd" where
  "deleteCluster env c =
     (case checkArgNum (c_Args c) 1 ''cluster delete <id>'' of
        Some _ \<Rightarrow> ret ()
      | None \<Rightarrow>
          (let cluster_id = First (c_Args c)
           in if length cluster_id = 0 then
                returnErr (Errorf ''Please provide a valid cluster ID'')
              else
                andThen (perform (CallGetClient (IsNonInteractive c))
                           (orNil (GetClient env (IsNonInteractive c)))) (\<lambda>_.
                andThen (perform (CallConfirmed (IsNonInteractive c))
                           (Inr (confirmed env (IsNonInteractive c)))) (\<lambda>yes.
                if yes then
                  andThen (perform (CallDelete cluster_id) (Delete env cluster_id)) (\<lambda>deleteTask.
                  perform (CallWaitOnTaskOperation (Task_ID deleteTask))
                    (orNil (waitOnTaskOperation env (Task_ID deleteTask))))
                else ret ()))))"

subsection \<open>The actions of the subcommands\<close>

text \<open>
  Each \<open>Action\<close> runs its command and calls \<open>log.Fatal\<close> on a non-nil error, which ends
  the process with status 1; an unrecovered panic ends it with status 2.
\<close>

datatype ending = Completed | LogFatal error | Crashed

definition Action :: "unit cmd \<Rightarrow> ending \<times> call list" where
  "Action command =
     (case command [] of
        (Inr _, tr) \<Rightarrow> (Completed, tr)
      | (Inl (ReturnErr e), tr) \<Rightarrow> (LogFatal e, tr)
      | (Inl Panic, tr) \<Rightarrow> (Crashed, tr))"

subsection \<open>Describing runs of the commands\<close>

text \<open>
  The calls that submit a mutating request or follow one up: the three requests, the
  task poller and the readiness waiter.
\<close>

fun submission :: "call \<Rightarrow> bool" where
  "submission (CallCreateCluster _ _) = True"
| "submission (CallResize _ _) = True"
| "submission (CallDelete _) = True"
| "submission (CallWaitOnTaskOperation _) = True"
| "submission (CallWaitForCluster _ _) = True"
| "submission _ = False"

text \<open>A piece of a command only appends calls, and each call it appends satisfies \<open>P\<close>.\<close>

definition adds :: "(call \<Rightarrow> bool) \<Rightarrow> 'a cmd \<Rightarrow> bool" where
  "adds P m = (\<forall>tr. \<exists>ext. snd (m tr) = tr @ ext \<and> list_all P ext)"

text \<open>
  The worker count after flag parsing and interactive prompting: the flag, or the parsed
  answer to the prompt that an interactive run makes when the flag is 0.
\<close>

definition workerCountInput :: "Env \<Rightarrow> Context \<Rightarrow> int option" where
  "workerCountInput env c =
     (if \<not> IsNonInteractive c \<and> c_Int c ''worker_count'' = 0 then
        (case askForInput env ''Worker count: '' [] of
           Inl _ \<Rightarrow> None
         | Inr s \<Rightarrow> (case Atoi s of Inl _ \<Rightarrow> None | Inr n \<Rightarrow> Some n))
      else Some (c_Int c ''worker_count''))"

text \<open>A worker count argument that \<open>resizeCluster\<close> accepts: a number, and positive.\<close>

definition validWorkerCount :: "string \<Rightarrow> bool" where
  "validWorkerCount s = (case Atoi s of Inl _ \<Rightarrow> False | Inr n \<Rightarrow> 0 < n)"

subsection \<open>Example invocations\<close>

text \<open>
  Collaborators that always succeed: the prompt gives back the value it was offered, the
  user confirms, and the cluster is READY at the third call of the waiter.
\<close>

definition demoEnv :: Env where
  "demoEnv =
     \<lparr>GetClient = (\<lambda>_. None),
      verifyTenant = (\<lambda>_. Inr ''tenant-1''),
      verifyProject = (\<lambda>_ _. Inr ''project-1''),
      askForInput = (\<lambda>msg inputName. Inr inputName),
      osOpen = (\<lambda>_. Inl (ClientError ''no such file'')),
      confirmed = (\<lambda>_. True),
      CreateCluster = (\<lambda>_ _. Inr \<lparr>Task_ID = ''task-1'', Entity_ID = ''c1''\<rparr>),
      Resize = (\<lambda>_ _. Inr \<lparr>Task_ID = ''task-2'', Entity_ID = ''c1''\<rparr>),
      Delete = (\<lambda>_. Inr \<lparr>Task_ID = ''task-3'', Entity_ID = ''c1''\<rparr>),
      waitOnTaskOperation = (\<lambda>_. None),
      Get = (\<lambda>_. readyAtThird)\<rparr>"

definition flags :: "(string \<times> 'a) list \<Rightarrow> 'a \<Rightarrow> string \<Rightarrow> 'a" where
  "flags kvs unset k = (case map_of kvs k of None \<Rightarrow> unset | Some v \<Rightarrow> v)"

text \<open>
  \<open>cluster create --non-interactive -t t1 -p p1 -n demo -k swarm --dns .. --gateway ..
  --netmask .. --etcd1 ..\<close>, with no worker count.
\<close>

definition createSwarm :: Context where
  "createSwarm =
     \<lparr>c_Args = [],
      c_String = flags [(''tenant'', ''t1''), (''project'', ''p1''), (''name'', ''demo''),
                        (''type'', ''swarm''), (''dns'', ''10.0.0.1''),
                        (''gateway'', ''10.0.0.2''), (''netmask'', ''255.255.255.0''),
                        (''etcd1'', ''10.0.0.3'')] [],
      c_Int = flags [] 0,
      c_IsSet = flags [] False,
      c_GlobalIsSet = flags [(''non-interactive'', True)] False,
      IsNonInteractive = True,
      NeedsFormatting = False\<rparr>"

text \<open>The same with \<open>-c 3\<close>.\<close>

definition createSwarmOfThree :: Context where
  "createSwarmOfThree = createSwarm\<lparr>c_Int := flags [(''worker_count'', 3)] 0\<rparr>"

text \<open>The same as \<open>createSwarm\<close> without the name.\<close>

definition createNameless :: Context where
  "createNameless =
     createSwarm\<lparr>c_String := flags [(''tenant'', ''t1''), (''project'', ''p1''),
                        (''type'', ''swarm''), (''dns'', ''10.0.0.1''),
                        (''gateway'', ''10.0.0.2''), (''netmask'', ''255.255.255.0''),
                        (''etcd1'', ''10.0.0.3'')] []\<rparr>"

text \<open>The same as \<open>createSwarm\<close> without the gateway.\<close>

definition createWithoutGateway :: Context where
  "createWithoutGateway =
     createSwarm\<lparr>c_String := flags [(''tenant'', ''t1''), (''project'', ''p1''),
                        (''name'', ''demo''), (''type'', ''swarm''), (''dns'', ''10.0.0.1''),
                        (''netmask'', ''255.255.255.0''), (''etcd1'', ''10.0.0.3'')] []\<rparr>"

text \<open>The spec that \<open>createSwarm\<close> leads to, with worker count \<open>n\<close>.\<close>

definition swarmSpec :: "int \<Rightarrow> ClusterCreateSpec" where
  "swarmSpec n =
     \<lparr>Spec_Name = ''demo'', Spec_Type = ''SWARM'', VMFlavor = [], DiskFlavor = [],
      NetworkID = [], Spec_WorkerCount = n, BatchSizeWorker = 0,
      ExtendedProperties =
        [(ExtendedPropertyDNS, ''10.0.0.1''), (ExtendedPropertyGateway, ''10.0.0.2''),
         (ExtendedPropertyNetMask, ''255.255.255.0''), (ExtendedPropertyETCDIP1, ''10.0.0.3'')]\<rparr>"

text \<open>\<open>cluster resize --non-interactive c1 many\<close> and \<open>cluster delete --non-interactive\<close>.\<close>

definition resizeToMany :: Context where
  "resizeToMany = createSwarm\<lparr>c_Args := [''c1'', ''many''], c_String := flags [] []\<rparr>"

definition deleteNothing :: Context where
  "deleteNothing = createSwarm\<lparr>c_Args := [], c_String := flags [] []\<rparr>"

section \<open>Properties of waitForCluster\<close>

subsection \<open>One pass through the loop body\<close>

lemma ToUpper_examples:
  "ToUpper (State creating) = ''CREATING''"
  "ToUpper (State ready) = ''READY''"
  "ToUpper (State errored) = ''ERROR''"
  by (simp_all add: creating_def ready_def errored_def) code_simp+

text \<open>The comparison of the switch does not depend on the letter case of the state.\<close>

lemma ToUpper_spellings:
  "ToUpper ''ready'' = ''READY''" "ToUpper ''Ready'' = ''READY''" "ToUpper ''READY'' = ''READY''"
  "ToUpper ''error'' = ''ERROR''" "ToUpper ''Error'' = ''ERROR''" "ToUpper ''ERROR'' = ''ERROR''"
  by code_simp+

lemma loopBody_uneventful:
  assumes "uneventful (get (calls st))"
      and "numErr st + failed (get (calls st)) \<le> taskRetryCount"
  shows "\<exists>st'. loopBody get cid st = Continue st'
           \<and> calls st' = Suc (calls st)
           \<and> numErr st' = numErr st + failed (get (calls st))
           \<and> elapsed st' = elapsed st + (took (get (calls st)) + taskPollDelay)
           \<and> trace st' = trace st @ [ClustersGet cid, Sleep taskPollDelay]
           \<and> cluster st' = got (get (calls st))
           \<and> err st' = failure (get (calls st))"
  using assms
  by (auto simp: loopBody_def Let_def uneventful_def failed_def split: option.splits if_splits)

lemma loopBody_ready:
  assumes "got (get (calls st)) = Some c"
      and "failure (get (calls st)) = None"
      and "ToUpper (State c) = ''READY''"
  shows "\<exists>st'. loopBody get cid st = Stop (Returned (Some c) None) st'
           \<and> trace st' = trace st @ [ClustersGet cid, SetEndAnimation, WgWait]"
  using assms
  by (simp add: loopBody_def Let_def returned_def endAnimationAndWait_def)

lemma loopBody_error:
  assumes "got (get (calls st)) = Some c"
      and "failure (get (calls st)) = None"
      and "ToUpper (State c) = ''ERROR''"
  shows "\<exists>st'. loopBody get cid st =
              Stop (Returned (Some c)
                      (Some (Errorf (''Cluster '' @ cid @ '' entered ERROR state'')))) st'
           \<and> trace st' = trace st @ [ClustersGet cid, SetEndAnimation, WgWait]"
  using assms
  by (simp add: loopBody_def Let_def returned_def endAnimationAndWait_def)

lemma loopBody_budget:
  assumes "failure (get (calls st)) = Some e"
      and "taskRetryCount \<le> numErr st"
  shows "\<exists>st'. loopBody get cid st = Stop (Returned (got (get (calls st))) (Some e)) st'
           \<and> trace st' = trace st @ [ClustersGet cid, SetEndAnimation, WgWait]"
  using assms
  by (simp add: loopBody_def Let_def returned_def endAnimationAndWait_def)

lemma loopBody_nil:
  assumes "got (get (calls st)) = None"
      and "failure (get (calls st)) = None \<or> numErr st < taskRetryCount"
  shows "\<exists>st'. loopBody get cid st = Stop NilPointerPanic st'
           \<and> trace st' = trace st @ [ClustersGet cid]"
  using assms
  by (auto simp: loopBody_def Let_def returned_def endAnimationAndWait_def)

lemma loopBody_Continue_trace:
  "loopBody get cid st = Continue st' \<Longrightarrow>
     trace st' = trace st @ [ClustersGet cid, Sleep taskPollDelay]"
  by (auto simp: loopBody_def Let_def returned_def split: if_splits option.splits)

lemma loopBody_Continue_calls:
  "loopBody get cid st = Continue st' \<Longrightarrow> calls st' = Suc (calls st)"
  by (auto simp: loopBody_def Let_def returned_def split: if_splits option.splits)

lemma loopBody_Continue_numErr:
  "loopBody get cid st = Continue st' \<Longrightarrow>
     numErr st' = numErr st + failed (get (calls st))"
  by (auto simp: loopBody_def Let_def returned_def failed_def split: if_splits option.splits)

lemma loopBody_Returned_trace:
  "loopBody get cid st = Stop (Returned c e) st' \<Longrightarrow>
     trace st' = trace st @ [ClustersGet cid, SetEndAnimation, WgWait]"
  by (auto simp: loopBody_def Let_def returned_def endAnimationAndWait_def
           split: if_splits option.splits)

subsection \<open>The loop\<close>

lemma waitLoop_Continue:
  "elapsed st < taskPollTimeout \<Longrightarrow> loopBody get cid st = Continue st'
     \<Longrightarrow> waitLoop get cid st = waitLoop get cid st'"
  by (subst waitLoop.simps) simp

lemma waitLoop_Stop:
  "elapsed st < taskPollTimeout \<Longrightarrow> loopBody get cid st = Stop out st'
     \<Longrightarrow> waitLoop get cid st = (out, st')"
  by (subst waitLoop.simps) simp

lemma waitLoop_timeout:
  assumes "taskPollTimeout \<le> elapsed st"
  shows "waitLoop get cid st =
           (Returned (cluster st)
              (Some (Errorf ''Timed out while waiting for cluster to enter READY state'')),
            (endAnimationAndWait st)
              \<lparr>err := Some (Errorf ''Timed out while waiting for cluster to enter READY state'')\<rparr>)"
  using assms
  by (subst waitLoop.simps) (simp add: Let_def endAnimationAndWait_def)

lemma stateAfter_waitLoop:
  "stateAfter get cid n = Some st \<Longrightarrow> waitLoop get cid start = waitLoop get cid st"
proof (induction n arbitrary: st)
  case 0
  then show ?case by simp
next
  case (Suc n)
  from Suc.prems obtain st0 where
    st0: "stateAfter get cid n = Some st0" "elapsed st0 < taskPollTimeout"
         "loopBody get cid st0 = Continue st"
    by (auto split: option.splits if_splits step.splits)
  from Suc.IH [OF st0(1)] waitLoop_Continue [OF st0(2,3)] show ?case by simp
qed

lemma stateAfter_calls:
  "stateAfter get cid n = Some st \<Longrightarrow> calls st = n"
proof (induction n arbitrary: st)
  case 0
  then show ?case by (auto simp: start_def)
next
  case (Suc n)
  from Suc.prems obtain st0 where
    st0: "stateAfter get cid n = Some st0" "loopBody get cid st0 = Continue st"
    by (auto split: option.splits if_splits step.splits)
  from Suc.IH [OF st0(1)] loopBody_Continue_calls [OF st0(2)] show ?case by simp
qed

text \<open>
  Over a stretch of uneventful responses with few enough failures and enough time left,
  the loop polls and sleeps, adding the failures to the counter.
\<close>

lemma waitLoop_skip_uneventful:
  assumes "calls st + m = n"
      and "\<forall>k. calls st \<le> k \<and> k < n \<longrightarrow> uneventful (get k)"
      and "numErr st + failures get (calls st) n \<le> taskRetryCount"
      and "elapsed st + span get (calls st) n < taskPollTimeout"
  shows "\<exists>st'. waitLoop get cid st = waitLoop get cid st'
           \<and> calls st' = n
           \<and> numErr st' = numErr st + failures get (calls st) n
           \<and> elapsed st' = elapsed st + span get (calls st) n
           \<and> trace st' = trace st @ polling cid (calls st) n"
  using assms
proof (induction m arbitrary: st)
  case 0
  then show ?case by (auto simp: failures_def span_def polling_def)
next
  case (Suc m)
  from Suc.prems(1) have lt: "calls st < n" by simp
  then have upt: "[calls st..<n] = calls st # [Suc (calls st)..<n]"
    by (simp add: upt_conv_Cons)
  have f: "failures get (calls st) n = failed (get (calls st)) + failures get (Suc (calls st)) n"
    and s: "span get (calls st) n
              = (took (get (calls st)) + taskPollDelay) + span get (Suc (calls st)) n"
    and p: "polling cid (calls st) n
              = [ClustersGet cid, Sleep taskPollDelay] @ polling cid (Suc (calls st)) n"
    by (simp_all add: failures_def span_def polling_def upt)
  have q: "uneventful (get (calls st))" using Suc.prems(2) lt by simp
  have b: "numErr st + failed (get (calls st)) \<le> taskRetryCount" using Suc.prems(3) f by simp
  from loopBody_uneventful [where get = get and st = st and cid = cid, OF q b] obtain st1 where
    st1: "loopBody get cid st = Continue st1" "calls st1 = Suc (calls st)"
         "numErr st1 = numErr st + failed (get (calls st))"
         "elapsed st1 = elapsed st + (took (get (calls st)) + taskPollDelay)"
         "trace st1 = trace st @ [ClustersGet cid, Sleep taskPollDelay]"
    by blast
  have e: "elapsed st < taskPollTimeout" using Suc.prems(4) by simp
  have w: "waitLoop get cid st = waitLoop get cid st1"
    by (rule waitLoop_Continue [OF e st1(1)])
  have "\<exists>st'. waitLoop get cid st1 = waitLoop get cid st'
           \<and> calls st' = n
           \<and> numErr st' = numErr st1 + failures get (calls st1) n
           \<and> elapsed st' = elapsed st1 + span get (calls st1) n
           \<and> trace st' = trace st1 @ polling cid (calls st1) n"
  proof (rule Suc.IH)
    show "calls st1 + m = n" using Suc.prems(1) st1(2) by simp
    show "\<forall>k. calls st1 \<le> k \<and> k < n \<longrightarrow> uneventful (get k)"
      using Suc.prems(2) st1(2) by simp
    show "numErr st1 + failures get (calls st1) n \<le> taskRetryCount"
      using Suc.prems(3) f st1(2,3) by simp
    show "elapsed st1 + span get (calls st1) n < taskPollTimeout"
      using Suc.prems(4) s st1(2,4) by simp
  qed
  then obtain st' where
    "waitLoop get cid st1 = waitLoop get cid st'" "calls st' = n"
    "numErr st' = numErr st1 + failures get (calls st1) n"
    "elapsed st' = elapsed st1 + span get (calls st1) n"
    "trace st' = trace st1 @ polling cid (calls st1) n"
    by blast
  with w st1 f s p show ?case by auto
qed

lemma waitLoop_from_start:
  assumes "\<forall>k<n. uneventful (get k)"
      and "failures get 0 n \<le> taskRetryCount"
      and "span get 0 n < taskPollTimeout"
  shows "\<exists>st'. waitLoop get cid start = waitLoop get cid st'
           \<and> calls st' = n
           \<and> numErr st' = failures get 0 n
           \<and> elapsed st' = span get 0 n
           \<and> trace st' = [WgAdd, GoDisplayTaskProgress] @ polling cid 0 n"
  using waitLoop_skip_uneventful [of start n n get cid] assms
  by (simp add: start_def)

text \<open>Every return of the loop is preceded by the stop signal and the join, once each.\<close>

lemma waitLoop_Returned_trace:
  "waitLoop get cid st = (Returned c e, st') \<Longrightarrow>
     \<exists>mid. trace st' = trace st @ mid @ [SetEndAnimation, WgWait]
          \<and> SetEndAnimation \<notin> set mid \<and> WgWait \<notin> set mid"
proof (induction get cid st rule: waitLoop.induct)
  case (1 get cid st)
  show ?case
  proof (cases "elapsed st < taskPollTimeout")
    case False
    then have "taskPollTimeout \<le> elapsed st" by simp
    from waitLoop_timeout [OF this, of get cid] "1.prems"
    have "trace st' = trace st @ [] @ [SetEndAnimation, WgWait]"
      by (auto simp: endAnimationAndWait_def)
    then show ?thesis by (intro exI [of _ "[]"]) simp
  next
    case True
    show ?thesis
    proof (cases "loopBody get cid st")
      case (Continue st1)
      from waitLoop_Continue [OF True Continue] "1.prems"
      have "waitLoop get cid st1 = (Returned c e, st')" by simp
      from "1.IH" [OF True Continue this] obtain mid where
        mid: "trace st' = trace st1 @ mid @ [SetEndAnimation, WgWait]"
             "SetEndAnimation \<notin> set mid" "WgWait \<notin> set mid"
        by blast
      from loopBody_Continue_trace [OF Continue] mid
      show ?thesis
        by (intro exI [of _ "[ClustersGet cid, Sleep taskPollDelay] @ mid"]) simp
    next
      case (Stop out st1)
      from waitLoop_Stop [OF True Stop] "1.prems"
      have eq: "out = Returned c e" "st1 = st'" by simp_all
      from loopBody_Returned_trace [of get cid st c e st'] Stop eq
      show ?thesis
        by (intro exI [of _ "[ClustersGet cid]"]) simp
    qed
  qed
qed

text \<open>
  When every response is uneventful and at most three of them fail, the loop ends by the
  timeout.
\<close>

lemma waitLoop_always_uneventful:
  assumes "\<forall>k. uneventful (get k)"
      and "\<forall>n. numErr st + failures get (calls st) n \<le> taskRetryCount"
  shows "\<exists>c. fst (waitLoop get cid st) =
           Returned c (Some (Errorf ''Timed out while waiting for cluster to enter READY state''))"
  using assms
proof (induction get cid st rule: waitLoop.induct)
  case (1 get cid st)
  show ?case
  proof (cases "elapsed st < taskPollTimeout")
    case False
    then have "taskPollTimeout \<le> elapsed st" by simp
    from waitLoop_timeout [OF this, of get cid] show ?thesis by simp
  next
    case True
    have q: "uneventful (get (calls st))" using "1.prems"(1) by simp
    have "failures get (calls st) (Suc (calls st)) = failed (get (calls st))"
      by (simp add: failures_def)
    with "1.prems"(2) [rule_format, of "Suc (calls st)"]
    have b: "numErr st + failed (get (calls st)) \<le> taskRetryCount" by simp
    from loopBody_uneventful [where get = get and st = st and cid = cid, OF q b] obtain st1 where
      st1: "loopBody get cid st = Continue st1" "calls st1 = Suc (calls st)"
           "numErr st1 = numErr st + failed (get (calls st))"
      by blast
    have inv: "\<forall>n. numErr st1 + failures get (calls st1) n \<le> taskRetryCount"
    proof
      fix n
      show "numErr st1 + failures get (calls st1) n \<le> taskRetryCount"
      proof (cases "calls st < n")
        case True
        then have "failures get (calls st) n
                     = failed (get (calls st)) + failures get (Suc (calls st)) n"
          by (simp add: failures_def upt_conv_Cons)
        with "1.prems"(2) [rule_format, of n] st1 show ?thesis by simp
      next
        case False
        then have "failures get (calls st1) n = 0" using st1(2) by (simp add: failures_def)
        with b st1 show ?thesis by simp
      qed
    qed
    from "1.IH" [OF True st1(1) "1.prems"(1) inv] waitLoop_Continue [OF True st1(1)]
    show ?thesis by simp
  qed
qed

subsection \<open>Whole runs\<close>

lemmas run_defs =
  waitForCluster_def start_def waitLoop.simps loopBody_def
  taskPollTimeout_def taskPollDelay_def taskRetryCount_def
  ok_def stale_def ToUpper_examples returned_def endAnimationAndWait_def

lemma waitForCluster_nil_first:
  assumes "got (get 0) = None"
  shows "waitForCluster get cid = (NilPointerPanic, [WgAdd, GoDisplayTaskProgress, ClustersGet cid])"
proof -
  have e: "elapsed start < taskPollTimeout" by (simp add: start_def taskPollTimeout_def)
  have "got (get (calls start)) = None" using assms by (simp add: start_def)
  moreover have "failure (get (calls start)) = None \<or> numErr start < taskRetryCount"
    by (simp add: start_def taskRetryCount_def)
  ultimately obtain st' where
    "loopBody get cid start = Stop NilPointerPanic st'"
    "trace st' = trace start @ [ClustersGet cid]"
    using loopBody_nil [of get start cid] by blast
  with waitLoop_Stop [OF e this(1)] show ?thesis
    by (simp add: waitForCluster_def start_def)
qed

text \<open>
  When the responses before call \<open>n\<close> are uneventful, exactly three of them failed, there
  is time left, and call \<open>n\<close> fails, the waiter returns the error of call \<open>n\<close>.
\<close>

lemma waitForCluster_budget_exceeded:
  assumes "\<forall>k<n. uneventful (get k)"
      and "failures get 0 n = taskRetryCount"
      and "span get 0 n < taskPollTimeout"
      and "failure (get n) = Some e"
  shows "waitForCluster get cid =
           (Returned (got (get n)) (Some e),
            [WgAdd, GoDisplayTaskProgress] @ polling cid 0 n
              @ [ClustersGet cid, SetEndAnimation, WgWait])"
proof -
  from waitLoop_from_start [of n get cid] assms obtain st where
    st: "waitLoop get cid start = waitLoop get cid st" "calls st = n"
        "numErr st = failures get 0 n" "elapsed st = span get 0 n"
        "trace st = [WgAdd, GoDisplayTaskProgress] @ polling cid 0 n"
    by auto
  have e: "elapsed st < taskPollTimeout" using st(4) assms(3) by simp
  from loopBody_budget [of get st e cid] st(2,3) assms(2,4) obtain st' where
    "loopBody get cid st = Stop (Returned (got (get n)) (Some e)) st'"
    "trace st' = trace st @ [ClustersGet cid, SetEndAnimation, WgWait]"
    by auto
  with waitLoop_Stop [OF e this(1)] st(1,5) show ?thesis
    by (simp add: waitForCluster_def)
qed

text \<open>
  When every response is uneventful and at most three fail, the waiter returns the
  timeout error.
\<close>

lemma waitForCluster_times_out:
  assumes "\<forall>k. uneventful (get k)"
      and "\<forall>n. failures get 0 n \<le> taskRetryCount"
  shows "\<exists>c. fst (waitForCluster get cid) =
           Returned c (Some (Errorf ''Timed out while waiting for cluster to enter READY state''))"
proof -
  from waitLoop_always_uneventful [of get start cid] assms
  obtain c where "fst (waitLoop get cid start) =
      Returned c (Some (Errorf ''Timed out while waiting for cluster to enter READY state''))"
    by (auto simp: start_def)
  then show ?thesis
    by (auto simp: waitForCluster_def split: prod.splits)
qed

text \<open>The loop runs out of time: no further call is made, the timeout error is returned.\<close>

lemma waitForCluster_deadline:
  assumes "stateAfter get cid n = Some st"
      and "taskPollTimeout \<le> elapsed st"
  shows "waitForCluster get cid =
           (Returned (cluster st)
              (Some (Errorf ''Timed out while waiting for cluster to enter READY state'')),
            trace st @ [SetEndAnimation, WgWait])"
  using stateAfter_waitLoop [OF assms(1)] waitLoop_timeout [OF assms(2), of get cid]
  by (simp add: waitForCluster_def endAnimationAndWait_def)

text \<open>
  C1. The first call fails and the client hands back no cluster: the waiter counts the
  failure, finds the budget not exceeded, and goes on to read \<open>cluster.State\<close> through
  the nil pointer. The run ends in a panic right after the first call; the stop signal is
  not set and the second response is never asked for.
\<close>

theorem first_fetch_error_dereferences_nil:
  "waitForCluster refusedThenReady ''c1''
     = (NilPointerPanic, [WgAdd, GoDisplayTaskProgress, ClustersGet ''c1''])"
  by (rule waitForCluster_nil_first) (simp add: refusedThenReady_def refused_def)




text \<open>
  C3. Every call fails and the client hands back no cluster. The waiter does not reach a
  fourth failure: it panics on \<open>cluster.State\<close> right after the first failed call, and
  no error is returned to the caller.
\<close>

theorem consecutive_failures_panic:
  "waitForCluster alwaysRefused ''c1''
     = (NilPointerPanic, [WgAdd, GoDisplayTaskProgress, ClustersGet ''c1''])"
  by (rule waitForCluster_nil_first) (simp add: alwaysRefused_def refused_def)

text \<open>
  C4. Whenever the waiter returns, on any of its four return paths, the actions it
  performed end with setting the stop signal and then joining the reporter; the signal
  is set once and the join is made once in the whole run.
\<close>

theorem waitForCluster_stops_reporter_once:
  assumes "fst (waitForCluster get cid) = Returned cl e"
  shows "count_list (snd (waitForCluster get cid)) SetEndAnimation = 1
       \<and> count_list (snd (waitForCluster get cid)) WgWait = 1
       \<and> drop (length (snd (waitForCluster get cid)) - 2) (snd (waitForCluster get cid))
           = [SetEndAnimation, WgWait]"
proof -
  obtain out st' where w: "waitLoop get cid start = (out, st')" by (cases "waitLoop get cid start")
  with assms have out: "out = Returned cl e" by (simp add: waitForCluster_def)
  from waitLoop_Returned_trace [of get cid start cl e st'] w out obtain mid where
    mid: "trace st' = trace start @ mid @ [SetEndAnimation, WgWait]"
         "SetEndAnimation \<notin> set mid" "WgWait \<notin> set mid"
    by blast
  have tr: "snd (waitForCluster get cid)
              = [WgAdd, GoDisplayTaskProgress] @ mid @ [SetEndAnimation, WgWait]"
    using w mid(1) by (simp add: waitForCluster_def start_def)
  have c0: "count_list mid SetEndAnimation = 0" "count_list mid WgWait = 0"
    using mid(2,3) by (simp_all add: count_list_0_iff)
  show ?thesis unfolding tr using c0 by simp
qed

theorem waitForCluster_stops_reporter_once_witness:
  "fst (waitForCluster readyAtThird ''c1'') = Returned (Some ready) None
   \<and> count_list (snd (waitForCluster readyAtThird ''c1'')) SetEndAnimation = 1
   \<and> count_list (snd (waitForCluster readyAtThird ''c1'')) WgWait = 1
   \<and> drop (length (snd (waitForCluster readyAtThird ''c1'')) - 2)
        (snd (waitForCluster readyAtThird ''c1''))
       = [SetEndAnimation, WgWait]
   \<and> fst (waitForCluster errorAtSecond ''c1'')
     = Returned (Some errored) (Some (Errorf ''Cluster c1 entered ERROR state''))
   \<and> count_list (snd (waitForCluster errorAtSecond ''c1'')) SetEndAnimation = 1
   \<and> count_list (snd (waitForCluster errorAtSecond ''c1'')) WgWait = 1
   \<and> drop (length (snd (waitForCluster errorAtSecond ''c1'')) - 2)
        (snd (waitForCluster errorAtSecond ''c1''))
       = [SetEndAnimation, WgWait]
   \<and> fst (waitForCluster isolatedFailures ''c1'')
     = Returned (Some creating) (Some (ClientError ''connection reset''))
   \<and> count_list (snd (waitForCluster isolatedFailures ''c1'')) SetEndAnimation = 1
   \<and> count_list (snd (waitForCluster isolatedFailures ''c1'')) WgWait = 1
   \<and> drop (length (snd (waitForCluster isolatedFailures ''c1'')) - 2)
        (snd (waitForCluster isolatedFailures ''c1''))
       = [SetEndAnimation, WgWait]
   \<and> fst (waitForCluster slowCreating ''c1'')
     = Returned (Some creating)
         (Some (Errorf ''Timed out while waiting for cluster to enter READY state''))
   \<and> count_list (snd (waitForCluster slowCreating ''c1'')) SetEndAnimation = 1
   \<and> count_list (snd (waitForCluster slowCreating ''c1'')) WgWait = 1
   \<and> drop (length (snd (waitForCluster slowCreating ''c1'')) - 2)
        (snd (waitForCluster slowCreating ''c1''))
       = [SetEndAnimation, WgWait]"
proof -
  have r: "fst (waitForCluster readyAtThird ''c1'') = Returned (Some ready) None"
    by (simp add: run_defs readyAtThird_def)
  have e: "fst (waitForCluster errorAtSecond ''c1'')
             = Returned (Some errored) (Some (Errorf ''Cluster c1 entered ERROR state''))"
    by (simp add: run_defs errorAtSecond_def)
  have b: "fst (waitForCluster isolatedFailures ''c1'')
             = Returned (Some creating) (Some (ClientError ''connection reset''))"
    by (simp add: run_defs isolatedFailures_def)
  have t: "fst (waitForCluster slowCreating ''c1'')
             = Returned (Some creating)
                 (Some (Errorf ''Timed out while waiting for cluster to enter READY state''))"
    by (simp add: run_defs slowCreating_def)
  from waitForCluster_stops_reporter_once [OF r] waitForCluster_stops_reporter_once [OF e]
       waitForCluster_stops_reporter_once [OF b] waitForCluster_stops_reporter_once [OF t]
       r e b t
  show ?thesis by simp
qed

text \<open>
  C5. When the loop starts an iteration and the call of that iteration succeeds with a
  cluster whose state is READY in any letter case, the waiter returns that cluster with
  a nil error; after the call it only sets the stop signal and joins the reporter: it
  does not sleep and makes no further call.
\<close>

theorem ready_fetch_returns_at_once:
  assumes "stateAfter get cid n = Some st"
      and "elapsed st < taskPollTimeout"
      and "got (get n) = Some c"
      and "failure (get n) = None"
      and "ToUpper (State c) = ''READY''"
  shows "waitForCluster get cid =
           (Returned (Some c) None, trace st @ [ClustersGet cid, SetEndAnimation, WgWait])"
proof -
  have n: "calls st = n" by (rule stateAfter_calls [OF assms(1)])
  from loopBody_ready [of get st c cid] n assms(3-5) obtain st' where
    "loopBody get cid st = Stop (Returned (Some c) None) st'"
    "trace st' = trace st @ [ClustersGet cid, SetEndAnimation, WgWait]"
    by auto
  with waitLoop_Stop [OF assms(2) this(1)] stateAfter_waitLoop [OF assms(1)] show ?thesis
    by (simp add: waitForCluster_def)
qed

theorem ready_fetch_returns_at_once_witness:
  "State ready = ''Ready''
   \<and> waitForCluster readyAtThird ''c1''
       = (Returned (Some ready) None,
          [WgAdd, GoDisplayTaskProgress,
           ClustersGet ''c1'', Sleep taskPollDelay, ClustersGet ''c1'', Sleep taskPollDelay,
           ClustersGet ''c1'', SetEndAnimation, WgWait])"
proof -
  have s: "stateAfter readyAtThird ''c1'' (Suc (Suc 0))
             = Some \<lparr>cluster = Some creating, err = None, numErr = 0, calls = 2,
                     elapsed = 4000000000,
                     trace = [WgAdd, GoDisplayTaskProgress,
                              ClustersGet ''c1'', Sleep taskPollDelay,
                              ClustersGet ''c1'', Sleep taskPollDelay]\<rparr>"
    by (simp add: start_def loopBody_def readyAtThird_def ok_def ToUpper_examples
          taskPollTimeout_def taskPollDelay_def taskRetryCount_def)
  have g: "got (readyAtThird (Suc (Suc 0))) = Some ready"
          "failure (readyAtThird (Suc (Suc 0))) = None"
    by (simp_all add: readyAtThird_def ok_def)
  from ready_fetch_returns_at_once [OF s _ g ToUpper_examples(2)]
  show ?thesis by (simp add: taskPollTimeout_def ready_def)
qed

text \<open>
  C6. When the loop starts an iteration and the call of that iteration succeeds with a
  cluster whose state is ERROR in any letter case, the waiter returns an error whose
  message names the cluster ID it was asked to wait for and the ERROR state; after the
  call it only sets the stop signal and joins the reporter: no sleep, no further call.
\<close>

theorem error_fetch_returns_named_error:
  assumes "stateAfter get cid n = Some st"
      and "elapsed st < taskPollTimeout"
      and "got (get n) = Some c"
      and "failure (get n) = None"
      and "ToUpper (State c) = ''ERROR''"
  shows "waitForCluster get cid =
           (Returned (Some c) (Some (Errorf (''Cluster '' @ cid @ '' entered ERROR state''))),
            trace st @ [ClustersGet cid, SetEndAnimation, WgWait])"
proof -
  have n: "calls st = n" by (rule stateAfter_calls [OF assms(1)])
  from loopBody_error [of get st c cid] n assms(3-5) obtain st' where
    "loopBody get cid st =
       Stop (Returned (Some c) (Some (Errorf (''Cluster '' @ cid @ '' entered ERROR state'')))) st'"
    "trace st' = trace st @ [ClustersGet cid, SetEndAnimation, WgWait]"
    by auto
  with waitLoop_Stop [OF assms(2) this(1)] stateAfter_waitLoop [OF assms(1)] show ?thesis
    by (simp add: waitForCluster_def)
qed

theorem error_fetch_returns_named_error_witness:
  "State errored = ''error''
   \<and> waitForCluster errorAtSecond ''c1''
       = (Returned (Some errored) (Some (Errorf ''Cluster c1 entered ERROR state'')),
          [WgAdd, GoDisplayTaskProgress,
           ClustersGet ''c1'', Sleep taskPollDelay,
           ClustersGet ''c1'', SetEndAnimation, WgWait])"
proof -
  have s: "stateAfter errorAtSecond ''c1'' (Suc 0)
             = Some \<lparr>cluster = Some creating, err = None, numErr = 0, calls = 1,
                     elapsed = 2000000000,
                     trace = [WgAdd, GoDisplayTaskProgress,
                              ClustersGet ''c1'', Sleep taskPollDelay]\<rparr>"
    by (simp add: start_def loopBody_def errorAtSecond_def ok_def ToUpper_examples
          taskPollTimeout_def taskPollDelay_def taskRetryCount_def)
  have g: "got (errorAtSecond (Suc 0)) = Some errored" "failure (errorAtSecond (Suc 0)) = None"
    by (simp_all add: errorAtSecond_def ok_def)
  from error_fetch_returns_named_error [OF s _ g ToUpper_examples(3)]
  show ?thesis by (simp add: taskPollTimeout_def errored_def)
qed

text \<open>
  C7. The first call fails and the client hands back no cluster; every later call would
  find the cluster CREATING. No READY or ERROR state is ever observed and a single
  failure is within the budget, yet the waiter does not reach the timeout: it panics on
  \<open>cluster.State\<close> right after the first call.
\<close>

theorem transient_failure_preempts_timeout:
  "failed (refusedThenCreating 0) = 1 \<and> refusedThenCreating 1 = ok creating 0
   \<and> refusedThenCreating 2 = ok creating 0
   \<and> waitForCluster refusedThenCreating ''c1''
       = (NilPointerPanic, [WgAdd, GoDisplayTaskProgress, ClustersGet ''c1''])"
  using waitForCluster_nil_first [of refusedThenCreating "''c1''"]
  by (simp add: refusedThenCreating_def refused_def failed_def)


section \<open>Properties of the commands\<close>

subsection \<open>Pieces of a command and the calls they add\<close>

lemmas cmd_defs =
  andThen_def perform_def perform_check_def ret_def returnErr_def orNil_def ask_def

lemma flags_simps:
  "flags [] u k = u"
  "flags ((k', v) # kvs) u k = (if k = k' then v else flags kvs u k)"
  by (simp_all add: flags_def)

lemma adds_ret: "adds P (ret x)"
  by (simp add: adds_def ret_def)

lemma adds_returnErr: "adds P (returnErr e)"
  by (simp add: adds_def returnErr_def)

lemma adds_perform_check: "adds P (perform_check e)"
  by (simp add: adds_def perform_check_def split: option.splits)

lemma adds_perform: "P cl \<Longrightarrow> adds P (perform cl r)"
  by (simp add: adds_def perform_def split: sum.splits)

lemma adds_ask: "P (CallAskForInput msg inputName) \<Longrightarrow> adds P (ask env msg inputName)"
  by (simp add: ask_def adds_perform)

lemma adds_andThen:
  assumes "adds P m" and "\<And>x. adds P (f x)"
  shows "adds P (andThen m f)"
  unfolding adds_def
proof
  fix tr
  from assms(1) obtain ext where m: "snd (m tr) = tr @ ext" "list_all P ext"
    unfolding adds_def by blast
  show "\<exists>ext. snd (andThen m f tr) = tr @ ext \<and> list_all P ext"
  proof (cases "m tr")
    case (Pair r tr1)
    with m have tr1: "tr1 = tr @ ext" by simp
    show ?thesis
    proof (cases r)
      case (Inl s)
      with Pair tr1 m(2) show ?thesis by (simp add: andThen_def)
    next
      case (Inr x)
      from assms(2) [of x] obtain ext' where
        "snd (f x tr1) = tr1 @ ext'" "list_all P ext'"
        unfolding adds_def by blast
      with Pair Inr tr1 m(2) show ?thesis
        by (intro exI [of _ "ext @ ext'"]) (simp add: andThen_def)
    qed
  qed
qed

lemma adds_if: "adds P a \<Longrightarrow> adds P b \<Longrightarrow> adds P (if t then a else b)"
  by simp

lemma adds_case_prod: "(\<And>a b. adds P (f a b)) \<Longrightarrow> adds P (case_prod f p)"
  by (cases p) simp

lemma adds_case_sum:
  "(\<And>a. adds P (f a)) \<Longrightarrow> (\<And>b. adds P (g b)) \<Longrightarrow> adds P (case_sum f g s)"
  by (cases s) simp_all

lemma adds_case_option:
  "adds P a \<Longrightarrow> (\<And>b. adds P (g b)) \<Longrightarrow> adds P (case_option a g s)"
  by (cases s) simp_all

lemmas adds_intros =
  adds_ret adds_returnErr adds_perform_check adds_perform adds_ask adds_andThen adds_if
  adds_case_prod adds_case_sum adds_case_option

lemma addsD:
  "adds P m \<Longrightarrow> m tr = (r, tr') \<Longrightarrow> \<exists>ext. tr' = tr @ ext \<and> list_all P ext"
  unfolding adds_def by (metis snd_conv)

lemma andThen_Inr:
  assumes "andThen m f tr = (Inr y, tr')"
  obtains x tr1 where "m tr = (Inr x, tr1)" and "f x tr1 = (Inr y, tr')"
  using assms by (auto simp: andThen_def split: prod.splits sum.splits)

lemma andThen_step:
  "m tr = (Inr x, tr1) \<Longrightarrow> andThen m f tr = f x tr1"
  by (simp add: andThen_def)

subsection \<open>createCluster\<close>

lemma adds_resolveProject: "adds (\<lambda>x. \<not> submission x) (resolveProject env c)"
  unfolding resolveProject_def by (intro adds_intros) simp_all

lemma adds_promptCluster: "adds (\<lambda>x. \<not> submission x) (promptCluster env c)"
  unfolding promptCluster_def by (intro adds_intros) simp_all

lemma adds_promptNetwork: "adds (\<lambda>x. \<not> submission x) (promptNetwork env c)"
  unfolding promptNetwork_def by (intro adds_intros) simp_all

lemma adds_networkProperties:
  "adds (\<lambda>x. \<not> submission x) (networkProperties env dns gateway netmask ssh_key)"
  unfolding networkProperties_def Let_def by (intro adds_intros) simp_all

lemma adds_promptEtcd: "adds (\<lambda>x. \<not> submission x) (promptEtcd env c)"
  unfolding promptEtcd_def by (intro adds_intros) simp_all

lemma adds_typeProperties:
  "adds (\<lambda>x. \<not> submission x) (typeProperties env c cluster_type extended_properties)"
  unfolding typeProperties_def by (intro adds_intros adds_promptEtcd) simp_all

lemma adds_buildClusterSpec: "adds (\<lambda>x. \<not> submission x) (buildClusterSpec env c)"
  unfolding buildClusterSpec_def Let_def
  by (intro adds_intros adds_resolveProject adds_promptCluster adds_promptNetwork
        adds_networkProperties adds_typeProperties)

lemma resolveProject_Inr:
  assumes "resolveProject env c tr = (Inr project_ID, tr')"
  shows "\<exists>tenant_ID. tr' = tr @ [CallGetClient (c_GlobalIsSet c ''non-interactive''),
                                 CallVerifyTenant (c_String c ''tenant''),
                                 CallVerifyProject tenant_ID (c_String c ''project'')]"
  using assms
  by (auto simp: resolveProject_def cmd_defs split: option.splits sum.splits)

lemma promptCluster_Inr:
  assumes "promptCluster env c tr = (Inr (name, cluster_type, worker_count), tr')"
  shows "workerCountInput env c = Some worker_count"
  using assms
  by (auto simp: promptCluster_def workerCountInput_def cmd_defs split: if_splits sum.splits)

lemma buildClusterSpec_Inr:
  assumes "buildClusterSpec env c tr = (Inr (project_ID, clusterSpec), tr')"
  shows "case promptCluster env c (snd (resolveProject env c tr)) of
           (Inr (name, cluster_type, worker_count), _) \<Rightarrow>
              name \<noteq> [] \<and> cluster_type \<noteq> []
              \<and> Spec_Name clusterSpec = name
              \<and> Spec_Type clusterSpec = ToUpper cluster_type
              \<and> Spec_WorkerCount clusterSpec
                  = (if worker_count = 0 then DEFAULT_WORKER_COUNT else worker_count)
         | (Inl _, _) \<Rightarrow> False"
  using assms
  unfolding buildClusterSpec_def andThen_def ret_def returnErr_def Let_def
  by (auto split: prod.splits sum.splits if_splits)

lemma awaitCluster_trace:
  "snd (awaitCluster env c cid tr)
     = tr @ [CallWaitForCluster cid (snd (waitForCluster (Get env cid) cid))]"
  by (auto simp: awaitCluster_def split: prod.splits outcome.splits option.splits)

text \<open>A create request in the calls of \<open>createCluster\<close> carries the spec that was built.\<close>

lemma createCluster_submitted:
  assumes "CallCreateCluster project_ID clusterSpec \<in> set (snd (createCluster env c []))"
  shows "\<exists>tr1. buildClusterSpec env c [] = (Inr (project_ID, clusterSpec), tr1)"
proof (cases "checkArgNum (c_Args c) 0 ''cluster create [<options>]''")
  case (Some e)
  with assms show ?thesis by (simp add: createCluster_def cmd_defs)
next
  case None
  obtain r tr1 where b: "buildClusterSpec env c [] = (r, tr1)"
    by (cases "buildClusterSpec env c []")
  from addsD [OF adds_buildClusterSpec b] have quiet: "list_all (\<lambda>x. \<not> submission x) tr1"
    by simp
  then have no: "CallCreateCluster project_ID clusterSpec \<notin> set tr1"
    by (auto simp: list_all_iff)
  show ?thesis
  proof (cases r)
    case (Inl s)
    with assms None b no show ?thesis by (simp add: createCluster_def cmd_defs)
  next
    case (Inr v)
    obtain pid spec where v: "v = (pid, spec)" by (cases v)
    have "snd (createCluster env c []) = tr1 @ [CallConfirmed (IsNonInteractive c)]
            \<or> (\<exists>rest. snd (createCluster env c [])
                  = tr1 @ [CallConfirmed (IsNonInteractive c), CallCreateCluster pid spec] @ rest
                  \<and> CallCreateCluster project_ID clusterSpec \<notin> set rest)"
      using None b Inr v
      by (auto simp: createCluster_def cmd_defs awaitCluster_trace
               split: sum.splits option.splits prod.splits)
    with assms no have "pid = project_ID \<and> spec = clusterSpec" by auto
    with b Inr v show ?thesis by simp
  qed
qed

lemma ToUpper_swarm: "ToUpper ''swarm'' = ''SWARM''"
  by code_simp

lemmas create_defs =
  createCluster_def buildClusterSpec_def resolveProject_def promptCluster_def promptNetwork_def
  networkProperties_def typeProperties_def etcdProperties_def DEFAULT_WORKER_COUNT_def
  checkArgNum_def

lemma createCluster_createSwarm:
  "createCluster demoEnv createSwarm []
     = (Inr (),
        [CallGetClient True, CallVerifyTenant ''t1'', CallVerifyProject ''tenant-1'' ''p1'',
         CallConfirmed True, CallCreateCluster ''project-1'' (swarmSpec 1),
         CallWaitOnTaskOperation ''task-1''])"
  by (simp add: create_defs cmd_defs ToUpper_swarm demoEnv_def createSwarm_def swarmSpec_def
        flags_simps)

lemma createCluster_createSwarmOfThree:
  "createCluster demoEnv createSwarmOfThree []
     = (Inr (),
        [CallGetClient True, CallVerifyTenant ''t1'', CallVerifyProject ''tenant-1'' ''p1'',
         CallConfirmed True, CallCreateCluster ''project-1'' (swarmSpec 3),
         CallWaitOnTaskOperation ''task-1''])"
  by (simp add: create_defs cmd_defs ToUpper_swarm demoEnv_def createSwarmOfThree_def
        createSwarm_def swarmSpec_def flags_simps)

lemma resizeCluster_invalid:
  assumes "c_Args c = [cluster_id, worker_count_string]"
      and "cluster_id = [] \<or> \<not> validWorkerCount worker_count_string"
  shows "resizeCluster env c []
           = (Inl (ReturnErr (Errorf ''Provide a valid cluster ID and worker count'')), [])"
  using assms
  by (auto simp: resizeCluster_def checkArgNum_def validWorkerCount_def cmd_defs
           split: sum.splits)

text \<open>
  C8, as stated, fails for \<open>createCluster\<close>: with an empty cluster name the validation
  error is returned only after the client has been obtained and the tenant and the project
  have been looked up through it.
\<close>

theorem createCluster_validates_after_lookups:
  "c_String createNameless ''name'' = []
   \<and> createCluster demoEnv createNameless []
       = (Inl (ReturnErr (Errorf ''Provide a valid cluster name and type'')),
          [CallGetClient True, CallVerifyTenant ''t1'', CallVerifyProject ''tenant-1'' ''p1''])"
  by (simp add: create_defs cmd_defs demoEnv_def createNameless_def createSwarm_def flags_simps)

text \<open>
  C8, amended. \<open>resizeCluster\<close> with an empty cluster ID, or with a worker count that is
  not a number or not positive, returns its validation error before any call to a
  collaborator. \<open>createCluster\<close> obtains the client and resolves tenant and project first
  and, when interactive, prompts; with an empty name or type after that, or with an
  empty DNS, gateway or netmask after the second round of prompts, it returns the
  validation error at once, and up to that point no request has been submitted and no
  task or cluster has been waited for.
\<close>

theorem validation_precedes_submission:
  "(length (c_Args c) = 2 \<and> (c_Args c ! 0 = [] \<or> \<not> validWorkerCount (c_Args c ! 1))
      \<longrightarrow> resizeCluster env c []
            = (Inl (ReturnErr (Errorf ''Provide a valid cluster ID and worker count'')), []))
   \<and> (c_Args c = [] \<and> resolveProject env c [] = (Inr project_ID, tr1)
        \<and> promptCluster env c tr1 = (Inr (name, cluster_type, worker_count), tr2)
        \<and> (name = [] \<or> cluster_type = [])
      \<longrightarrow> createCluster env c []
            = (Inl (ReturnErr (Errorf ''Provide a valid cluster name and type'')), tr2)
          \<and> list_all (\<lambda>x. \<not> submission x) tr2
          \<and> (\<exists>tenant_ID. take 3 tr2
                = [CallGetClient (c_GlobalIsSet c ''non-interactive''),
                   CallVerifyTenant (c_String c ''tenant''),
                   CallVerifyProject tenant_ID (c_String c ''project'')]))
   \<and> (c_Args c = [] \<and> resolveProject env c [] = (Inr project_ID, tr1)
        \<and> promptCluster env c tr1 = (Inr (name, cluster_type, worker_count), tr2)
        \<and> name \<noteq> [] \<and> cluster_type \<noteq> []
        \<and> promptNetwork env c tr2 = (Inr (dns, gateway, netmask, ssh_key), tr3)
        \<and> (dns = [] \<or> gateway = [] \<or> netmask = [])
      \<longrightarrow> createCluster env c []
            = (Inl (ReturnErr (Errorf ''Provide a valid DNS, gateway, and netmask'')), tr3)
          \<and> list_all (\<lambda>x. \<not> submission x) tr3
          \<and> (\<exists>tenant_ID. take 3 tr3
                = [CallGetClient (c_GlobalIsSet c ''non-interactive''),
                   CallVerifyTenant (c_String c ''tenant''),
                   CallVerifyProject tenant_ID (c_String c ''project'')]))"
proof (intro conjI impI)
  assume a: "length (c_Args c) = 2 \<and> (c_Args c ! 0 = [] \<or> \<not> validWorkerCount (c_Args c ! 1))"
  then obtain cluster_id worker_count_string where
    args: "c_Args c = [cluster_id, worker_count_string]"
    by (cases "c_Args c"; cases "tl (c_Args c)") auto
  with a have "cluster_id = [] \<or> \<not> validWorkerCount worker_count_string" by simp
  from resizeCluster_invalid [OF args this]
  show "resizeCluster env c []
          = (Inl (ReturnErr (Errorf ''Provide a valid cluster ID and worker count'')), [])" .
next
  assume a: "c_Args c = [] \<and> resolveProject env c [] = (Inr project_ID, tr1)
        \<and> promptCluster env c tr1 = (Inr (name, cluster_type, worker_count), tr2)
        \<and> (name = [] \<or> cluster_type = [])"
  then show "createCluster env c []
            = (Inl (ReturnErr (Errorf ''Provide a valid cluster name and type'')), tr2)"
    by (auto simp: createCluster_def buildClusterSpec_def checkArgNum_def andThen_def
          perform_check_def returnErr_def)
  from a resolveProject_Inr [of env c "[]" project_ID tr1] obtain tenant_ID where
    tr1: "tr1 = [CallGetClient (c_GlobalIsSet c ''non-interactive''),
                 CallVerifyTenant (c_String c ''tenant''),
                 CallVerifyProject tenant_ID (c_String c ''project'')]"
    by auto
  from a addsD [OF adds_promptCluster, of env c tr1] obtain ext where
    ext: "tr2 = tr1 @ ext" "list_all (\<lambda>x. \<not> submission x) ext"
    by blast
  from tr1 ext show "list_all (\<lambda>x. \<not> submission x) tr2" by simp
  from tr1 ext show "\<exists>tenant_ID. take 3 tr2
                = [CallGetClient (c_GlobalIsSet c ''non-interactive''),
                   CallVerifyTenant (c_String c ''tenant''),
                   CallVerifyProject tenant_ID (c_String c ''project'')]"
    by simp
next
  assume a: "c_Args c = [] \<and> resolveProject env c [] = (Inr project_ID, tr1)
        \<and> promptCluster env c tr1 = (Inr (name, cluster_type, worker_count), tr2)
        \<and> name \<noteq> [] \<and> cluster_type \<noteq> []
        \<and> promptNetwork env c tr2 = (Inr (dns, gateway, netmask, ssh_key), tr3)
        \<and> (dns = [] \<or> gateway = [] \<or> netmask = [])"
  then show "createCluster env c []
            = (Inl (ReturnErr (Errorf ''Provide a valid DNS, gateway, and netmask'')), tr3)"
    by (auto simp: createCluster_def buildClusterSpec_def checkArgNum_def andThen_def
          perform_check_def returnErr_def Let_def)
  from a resolveProject_Inr [of env c "[]" project_ID tr1] obtain tenant_ID where
    tr1: "tr1 = [CallGetClient (c_GlobalIsSet c ''non-interactive''),
                 CallVerifyTenant (c_String c ''tenant''),
                 CallVerifyProject tenant_ID (c_String c ''project'')]"
    by auto
  from a addsD [OF adds_promptCluster, of env c tr1] obtain ext where
    ext: "tr2 = tr1 @ ext" "list_all (\<lambda>x. \<not> submission x) ext"
    by blast
  from a addsD [OF adds_promptNetwork, of env c tr2] obtain ext' where
    ext': "tr3 = tr2 @ ext'" "list_all (\<lambda>x. \<not> submission x) ext'"
    by blast
  from tr1 ext ext' show "list_all (\<lambda>x. \<not> submission x) tr3" by simp
  from tr1 ext ext' show "\<exists>tenant_ID. take 3 tr3
                = [CallGetClient (c_GlobalIsSet c ''non-interactive''),
                   CallVerifyTenant (c_String c ''tenant''),
                   CallVerifyProject tenant_ID (c_String c ''project'')]"
    by simp
qed

theorem validation_precedes_submission_witness:
  "c_Args resizeToMany = [''c1'', ''many''] \<and> \<not> validWorkerCount ''many''
   \<and> resizeCluster demoEnv resizeToMany []
       = (Inl (ReturnErr (Errorf ''Provide a valid cluster ID and worker count'')), [])
   \<and> c_String createNameless ''name'' = []
   \<and> createCluster demoEnv createNameless []
       = (Inl (ReturnErr (Errorf ''Provide a valid cluster name and type'')),
          [CallGetClient True, CallVerifyTenant ''t1'', CallVerifyProject ''tenant-1'' ''p1''])
   \<and> c_String createWithoutGateway ''gateway'' = []
   \<and> createCluster demoEnv createWithoutGateway []
       = (Inl (ReturnErr (Errorf ''Provide a valid DNS, gateway, and netmask'')),
          [CallGetClient True, CallVerifyTenant ''t1'', CallVerifyProject ''tenant-1'' ''p1''])"
proof -
  let ?tr = "[CallGetClient True, CallVerifyTenant ''t1'', CallVerifyProject ''tenant-1'' ''p1'']"
  have r: "c_Args resizeToMany = [''c1'', ''many'']" "\<not> validWorkerCount ''many''"
    by (simp_all add: resizeToMany_def createSwarm_def validWorkerCount_def Atoi_def digit_def)
  have n1: "c_Args createNameless = []"
           "resolveProject demoEnv createNameless [] = (Inr ''project-1'', ?tr)"
           "promptCluster demoEnv createNameless ?tr = (Inr ([], ''swarm'', 0), ?tr)"
           "c_String createNameless ''name'' = []"
    by (simp_all add: resolveProject_def promptCluster_def cmd_defs demoEnv_def
          createNameless_def createSwarm_def flags_simps)
  have g1: "c_Args createWithoutGateway = []"
           "resolveProject demoEnv createWithoutGateway [] = (Inr ''project-1'', ?tr)"
           "promptCluster demoEnv createWithoutGateway ?tr = (Inr (''demo'', ''swarm'', 0), ?tr)"
           "promptNetwork demoEnv createWithoutGateway ?tr
              = (Inr (''10.0.0.1'', [], ''255.255.255.0'', []), ?tr)"
           "c_String createWithoutGateway ''gateway'' = []"
    by (simp_all add: resolveProject_def promptCluster_def promptNetwork_def cmd_defs
          demoEnv_def createWithoutGateway_def createSwarm_def flags_simps)
  from validation_precedes_submission [where c = resizeToMany and env = demoEnv]
       validation_precedes_submission [where c = createNameless and env = demoEnv
         and project_ID = "''project-1''" and ?tr1.0 = ?tr and ?tr2.0 = ?tr
         and name = "[]" and cluster_type = "''swarm''" and worker_count = 0]
       validation_precedes_submission [where c = createWithoutGateway and env = demoEnv
         and project_ID = "''project-1''" and ?tr1.0 = ?tr and ?tr2.0 = ?tr and ?tr3.0 = ?tr
         and name = "''demo''" and cluster_type = "''swarm''" and worker_count = 0
         and dns = "''10.0.0.1''" and gateway = "[]" and netmask = "''255.255.255.0''"
         and ssh_key = "[]"]
       r n1 g1
  show ?thesis by simp
qed

text \<open>
  C9. With any number of arguments other than one, \<open>checkArgNum\<close> reports an error and
  \<open>deleteCluster\<close> returns nil instead of it, having called no collaborator; the action
  of the subcommand therefore completes without \<open>log.Fatal\<close>.
\<close>

theorem deleteCluster_swallows_arg_error:
  assumes "length (c_Args c) \<noteq> 1"
  shows "checkArgNum (c_Args c) 1 ''cluster delete <id>'' \<noteq> None
       \<and> deleteCluster env c [] = (Inr (), [])
       \<and> Action (deleteCluster env c) = (Completed, [])"
  using assms
  by (simp add: deleteCluster_def checkArgNum_def ret_def Action_def)

theorem deleteCluster_swallows_arg_error_witness:
  "length (c_Args deleteNothing) \<noteq> 1
   \<and> deleteCluster demoEnv deleteNothing [] = (Inr (), [])
   \<and> Action (deleteCluster demoEnv deleteNothing) = (Completed, [])"
proof -
  have h: "length (c_Args deleteNothing) \<noteq> 1"
    by (simp add: deleteNothing_def createSwarm_def)
  from deleteCluster_swallows_arg_error [OF h, of demoEnv] h show ?thesis by simp
qed

text \<open>
  C10. Whenever \<open>createCluster\<close> submits a create request, the worker count of the spec
  it submits is 1, the value of \<open>DEFAULT_WORKER_COUNT\<close>, when the worker count after flag
  parsing and prompting is 0, which is also what an unset flag reads as, and is that
  worker count unchanged otherwise.
\<close>

theorem createCluster_worker_count:
  assumes "CallCreateCluster project_ID clusterSpec \<in> set (snd (createCluster env c []))"
  shows "DEFAULT_WORKER_COUNT = 1
       \<and> (\<exists>worker_count. workerCountInput env c = Some worker_count
            \<and> Spec_WorkerCount clusterSpec
                = (if worker_count = 0 then DEFAULT_WORKER_COUNT else worker_count))"
proof -
  from createCluster_submitted [OF assms] obtain tr1 where
    b: "buildClusterSpec env c [] = (Inr (project_ID, clusterSpec), tr1)"
    by blast
  from buildClusterSpec_Inr [OF b] obtain name cluster_type worker_count tr2 where
    p: "promptCluster env c (snd (resolveProject env c []))
          = (Inr (name, cluster_type, worker_count), tr2)"
    and w: "Spec_WorkerCount clusterSpec
              = (if worker_count = 0 then DEFAULT_WORKER_COUNT else worker_count)"
    by (auto split: prod.splits sum.splits)
  from promptCluster_Inr [OF p] w show ?thesis
    by (simp add: DEFAULT_WORKER_COUNT_def)
qed

theorem createCluster_worker_count_witness:
  "c_Int createSwarm ''worker_count'' = 0
   \<and> CallCreateCluster ''project-1'' (swarmSpec 1) \<in> set (snd (createCluster demoEnv createSwarm []))
   \<and> Spec_WorkerCount (swarmSpec 1) = 1
   \<and> c_Int createSwarmOfThree ''worker_count'' = 3
   \<and> CallCreateCluster ''project-1'' (swarmSpec 3)
        \<in> set (snd (createCluster demoEnv createSwarmOfThree []))
   \<and> Spec_WorkerCount (swarmSpec 3) = 3"
proof -
  have h1: "CallCreateCluster ''project-1'' (swarmSpec 1)
              \<in> set (snd (createCluster demoEnv createSwarm []))"
    by (simp add: createCluster_createSwarm)
  have h3: "CallCreateCluster ''project-1'' (swarmSpec 3)
              \<in> set (snd (createCluster demoEnv createSwarmOfThree []))"
    by (simp add: createCluster_createSwarmOfThree)
  have w: "workerCountInput demoEnv createSwarm = Some 0"
          "workerCountInput demoEnv createSwarmOfThree = Some 3"
          "c_Int createSwarm ''worker_count'' = 0"
          "c_Int createSwarmOfThree ''worker_count'' = 3"
    by (simp_all add: workerCountInput_def createSwarmOfThree_def createSwarm_def flags_simps)
  from createCluster_worker_count [OF h1] createCluster_worker_count [OF h3] h1 h3 w
  show ?thesis by simp
qed


end
